theory Spec2Isabelle
  imports Main "HOL-Library.AList" "HOL-Library.Char_ord" "HOL-Library.List_Lexorder"
begin

section \<open>Calendar sync: JSON documents and the Python primitives in use\<close>

text \<open>
  The module \<^verbatim>\<open>orchestration/calendar-sync.py\<close> reads one \<^verbatim>\<open>meta.json\<close> per task thread,
  keeps a sync state (thread id to calendar event) and drives an external calendar script.
  A parsed JSON document is a value of \<open>json\<close>; an object keeps its keys in insertion
  order, as a Python dict does. Numbers are integers (documents with fractional numbers
  are outside the model) and a character is an ASCII code point.
\<close>

datatype json =
    JNull
  | JBool bool
  | JInt int
  | JStr string
  | JList "json list"
  | JObj "(string \<times> json) list"

text \<open>The exceptions that can leave a function of the module.\<close>

datatype exn = AttributeError | TypeError | KeyError | ValueError | OverflowError | OutsideModel

definition then_do :: "exn + 'a \<Rightarrow> ('a \<Rightarrow> exn + 'b) \<Rightarrow> exn + 'b" where
  "then_do r f = (case r of Inl e \<Rightarrow> Inl e | Inr x \<Rightarrow> f x)"

text \<open>Truth value of an object in a condition (\<^verbatim>\<open>if x:\<close>).\<close>

fun truthy :: "json \<Rightarrow> bool" where
  "truthy JNull = False"
| "truthy (JBool b) = b"
| "truthy (JInt n) = (n \<noteq> 0)"
| "truthy (JStr s) = (s \<noteq> [])"
| "truthy (JList xs) = (xs \<noteq> [])"
| "truthy (JObj kvs) = (kvs \<noteq> [])"

text \<open>\<^verbatim>\<open>d.get(k, default)\<close> on a dict, and on any value (only a dict has the method).\<close>

definition dict_get :: "(string \<times> json) list \<Rightarrow> string \<Rightarrow> json \<Rightarrow> json" where
  "dict_get kvs k d = (case map_of kvs k of None \<Rightarrow> d | Some v \<Rightarrow> v)"

definition py_get :: "json \<Rightarrow> string \<Rightarrow> json \<Rightarrow> exn + json" where
  "py_get v k d = (case v of JObj kvs \<Rightarrow> Inr (dict_get kvs k d) | _ \<Rightarrow> Inl AttributeError)"

text \<open>\<^verbatim>\<open>d[k] = v\<close> keeps the position of an existing key and appends a new one;
  \<^verbatim>\<open>del d[k]\<close> removes the key.\<close>

definition dict_set :: "(string \<times> json) list \<Rightarrow> string \<Rightarrow> json \<Rightarrow> (string \<times> json) list" where
  "dict_set kvs k v = AList.update k v kvs"

definition dict_del :: "(string \<times> json) list \<Rightarrow> string \<Rightarrow> (string \<times> json) list" where
  "dict_del kvs k = AList.delete k kvs"

subsection \<open>Strings\<close>

definition upper_char :: "char \<Rightarrow> char" where
  "upper_char c = (if CHR ''a'' \<le> c \<and> c \<le> CHR ''z'' then char_of (of_char c - (32::nat)) else c)"

definition lower_char :: "char \<Rightarrow> char" where
  "lower_char c = (if CHR ''A'' \<le> c \<and> c \<le> CHR ''Z'' then char_of (of_char c + (32::nat)) else c)"

definition upper :: "string \<Rightarrow> string" where
  "upper s = map upper_char s"

definition lower :: "string \<Rightarrow> string" where
  "lower s = map lower_char s"

definition startswith :: "string \<Rightarrow> string \<Rightarrow> bool" where
  "startswith s p = (take (length p) s = p)"

fun join :: "string \<Rightarrow> string list \<Rightarrow> string" where
  "join sep [] = []"
| "join sep [x] = x"
| "join sep (x # y # ys) = x @ sep @ join sep (y # ys)"

text \<open>\<^verbatim>\<open>s.split(c)\<close> for a one-character separator.\<close>

fun split_on :: "char \<Rightarrow> string \<Rightarrow> string list" where
  "split_on c [] = [[]]"
| "split_on c (x # xs) =
     (if x = c then [] # split_on c xs
      else (case split_on c xs of [] \<Rightarrow> [[x]] | p # ps \<Rightarrow> (x # p) # ps))"

definition digit_char :: "nat \<Rightarrow> char" where
  "digit_char n = ''0123456789abcdef'' ! (n mod 16)"

fun digits :: "nat \<Rightarrow> string" where
  "digits n = (if n < 10 then [digit_char n] else digits (n div 10) @ [digit_char (n mod 10)])"

declare digits.simps [simp del]

definition show_int :: "int \<Rightarrow> string" where
  "show_int i = (if i < 0 then CHR ''-'' # digits (nat (- i)) else digits (nat i))"

text \<open>\<^verbatim>\<open>int(s)\<close> on a string of decimal digits, as the patterns of the module capture
  them; \<open>None\<close> is \<^verbatim>\<open>ValueError\<close>.\<close>

definition is_digit :: "char \<Rightarrow> bool" where
  "is_digit c = (CHR ''0'' \<le> c \<and> c \<le> CHR ''9'')"

definition parse_int :: "string \<Rightarrow> int option" where
  "parse_int s =
     (if s \<noteq> [] \<and> list_all is_digit s
      then Some (foldl (\<lambda>a c. 10 * a + (int (of_char c) - 48)) 0 s)
      else None)"

text \<open>\<^verbatim>\<open>repr\<close> of a string and \<^verbatim>\<open>str\<close> of a JSON value, as an f-string and \<^verbatim>\<open>str()\<close> give them.\<close>

definition repr_char :: "char \<Rightarrow> char \<Rightarrow> string" where
  "repr_char q c =
     (if c = CHR 0x5C then [CHR 0x5C, CHR 0x5C]
      else if c = q then [CHR 0x5C, q]
      else if c = CHR 0x09 then [CHR 0x5C, CHR ''t'']
      else if c = CHR 0x0A then [CHR 0x5C, CHR ''n'']
      else if c = CHR 0x0D then [CHR 0x5C, CHR ''r'']
      else if (of_char c :: nat) < 32 \<or> 127 \<le> (of_char c :: nat)
        then [CHR 0x5C, CHR ''x'', digit_char (of_char c div 16), digit_char (of_char c mod 16)]
      else [c])"

definition repr_str :: "string \<Rightarrow> string" where
  "repr_str s =
     (let q = (if CHR 0x27 \<in> set s \<and> CHR 0x22 \<notin> set s then CHR 0x22 else CHR 0x27)
      in q # concat (map (repr_char q) s) @ [q])"

fun py_repr :: "json \<Rightarrow> string" where
  "py_repr JNull = ''None''"
| "py_repr (JBool b) = (if b then ''True'' else ''False'')"
| "py_repr (JInt n) = show_int n"
| "py_repr (JStr s) = repr_str s"
| "py_repr (JList xs) = ''['' @ join '', '' (map py_repr xs) @ '']''"
| "py_repr (JObj kvs) =
     ''{'' @ join '', '' (map (\<lambda>(k, v). repr_str k @ '': '' @ py_repr v) kvs) @ ''}''"

definition py_str :: "json \<Rightarrow> string" where
  "py_str v = (case v of JStr s \<Rightarrow> s | _ \<Rightarrow> py_repr v)"

subsection \<open>\<^verbatim>\<open>json.dumps(v, sort_keys=True)\<close>\<close>

definition dumps_char :: "char \<Rightarrow> string" where
  "dumps_char c =
     (if c = CHR 0x22 then [CHR 0x5C, CHR 0x22]
      else if c = CHR 0x5C then [CHR 0x5C, CHR 0x5C]
      else if c = CHR 0x0A then [CHR 0x5C, CHR ''n'']
      else if c = CHR 0x0D then [CHR 0x5C, CHR ''r'']
      else if c = CHR 0x09 then [CHR 0x5C, CHR ''t'']
      else if c = CHR 0x08 then [CHR 0x5C, CHR ''b'']
      else if c = CHR 0x0C then [CHR 0x5C, CHR ''f'']
      else if (of_char c :: nat) < 32 \<or> 127 \<le> (of_char c :: nat)
        then [CHR 0x5C, CHR ''u'', CHR ''0'', CHR ''0'',
              digit_char (of_char c div 16), digit_char (of_char c mod 16)]
      else [c])"

definition dumps_str :: "string \<Rightarrow> string" where
  "dumps_str s = CHR 0x22 # concat (map dumps_char s) @ [CHR 0x22]"

fun sort_keys :: "json \<Rightarrow> json" where
  "sort_keys (JList xs) = JList (map sort_keys xs)"
| "sort_keys (JObj kvs) = JObj (sort_key fst (map (\<lambda>(k, v). (k, sort_keys v)) kvs))"
| "sort_keys v = v"

fun encode :: "json \<Rightarrow> string" where
  "encode JNull = ''null''"
| "encode (JBool b) = (if b then ''true'' else ''false'')"
| "encode (JInt n) = show_int n"
| "encode (JStr s) = dumps_str s"
| "encode (JList xs) = ''['' @ join '', '' (map encode xs) @ '']''"
| "encode (JObj kvs) =
     ''{'' @ join '', '' (map (\<lambda>(k, v). dumps_str k @ '': '' @ encode v) kvs) @ ''}''"

definition dumps_sorted :: "json \<Rightarrow> string" where
  "dumps_sorted v = encode (sort_keys v)"

subsection \<open>\<^verbatim>\<open>sorted(v)\<close>\<close>

text \<open>
  \<^verbatim>\<open>sorted\<close> iterates its argument (a list, the characters of a string, the keys of a
  dict; anything else raises \<^verbatim>\<open>TypeError\<close>) and orders the items with \<^verbatim>\<open><\<close>: strings by
  code point, integers and booleans by value, stably. Items of different kinds, and two
  or more items that are \<^verbatim>\<open>None\<close> or dicts, raise \<^verbatim>\<open>TypeError\<close>. Lists of lists are outside
  the model.
\<close>

fun is_str :: "json \<Rightarrow> bool" where
  "is_str (JStr s) = True"
| "is_str v = False"

fun str_of :: "json \<Rightarrow> string" where
  "str_of (JStr s) = s"
| "str_of v = []"

fun is_num :: "json \<Rightarrow> bool" where
  "is_num (JInt n) = True"
| "is_num (JBool b) = True"
| "is_num v = False"

fun num_of :: "json \<Rightarrow> int" where
  "num_of (JInt n) = n"
| "num_of (JBool b) = (if b then 1 else 0)"
| "num_of v = 0"

fun is_list :: "json \<Rightarrow> bool" where
  "is_list (JList xs) = True"
| "is_list v = False"

definition sorted_items :: "json list \<Rightarrow> exn + json list" where
  "sorted_items xs =
     (if length xs \<le> 1 then Inr xs
      else if list_all is_str xs then Inr (sort_key str_of xs)
      else if list_all is_num xs then Inr (sort_key num_of xs)
      else if list_all is_list xs then Inl OutsideModel
      else Inl TypeError)"

definition py_sorted :: "json \<Rightarrow> exn + json list" where
  "py_sorted v =
     (case v of
        JList xs \<Rightarrow> sorted_items xs
      | JStr s \<Rightarrow> Inr (map (\<lambda>c. JStr [c]) (sort s))
      | JObj kvs \<Rightarrow> Inr (map JStr (sort (map fst kvs)))
      | _ \<Rightarrow> Inl TypeError)"

section \<open>Priorities\<close>

definition normalize_priority :: "json \<Rightarrow> string" where
  "normalize_priority priority =
     (if priority = JNull then ''P4''
      else let p = upper (py_str priority) in
        if p \<in> set [''P1'', ''1'', ''PRIORITY-1''] then ''P1''
        else if p \<in> set [''P2'', ''2'', ''PRIORITY-2''] then ''P2''
        else if p \<in> set [''P3'', ''3'', ''PRIORITY-3''] then ''P3''
        else ''P4'')"

text \<open>The emoji of the source are written as their UTF-8 bytes.\<close>

definition red_circle :: string where
  "red_circle = [CHR 0xF0, CHR 0x9F, CHR 0x94, CHR 0xB4]"

definition orange_circle :: string where
  "orange_circle = [CHR 0xF0, CHR 0x9F, CHR 0x9F, CHR 0xA0]"

definition yellow_circle :: string where
  "yellow_circle = [CHR 0xF0, CHR 0x9F, CHR 0x9F, CHR 0xA1]"

definition white_circle :: string where
  "white_circle = [CHR 0xE2, CHR 0x9A, CHR 0xAA]"

definition get_priority_emoji :: "string \<Rightarrow> string" where
  "get_priority_emoji priority =
     (if priority \<in> set [''P1'', ''1'', ''priority-1''] then red_circle
      else if priority \<in> set [''P2'', ''2'', ''priority-2''] then orange_circle
      else if priority \<in> set [''P3'', ''3'', ''priority-3''] then yellow_circle
      else white_circle)"

definition PRIORITY_COLORS :: "(string \<times> string) list" where
  "PRIORITY_COLORS = [(''P1'', ''11''), (''P2'', ''6''), (''P3'', ''5''), (''P4'', ''8'')]"

definition priority_color :: "string \<Rightarrow> string" where
  "priority_color priority = (case map_of PRIORITY_COLORS priority of None \<Rightarrow> ''8'' | Some c \<Rightarrow> c)"

section \<open>Dates, the clock and the outside world\<close>

text \<open>
  A naive \<^verbatim>\<open>datetime\<close> is a day number in the proleptic Gregorian calendar (day 1 is
  0001-01-01, as \<^verbatim>\<open>toordinal\<close> counts) and the microseconds since midnight.
\<close>

record datetime =
  ordinal :: int
  micros :: nat

definition MAXORDINAL :: int where
  "MAXORDINAL = 3652059"

text \<open>\<^verbatim>\<open>d + timedelta(days=n)\<close>: both the \<^verbatim>\<open>timedelta\<close> and the sum raise
  \<^verbatim>\<open>OverflowError\<close> out of their range.\<close>

definition plus_days :: "datetime \<Rightarrow> int \<Rightarrow> exn + datetime" where
  "plus_days d n =
     (if \<bar>n\<bar> \<le> 999999999 \<and> 1 \<le> ordinal d + n \<and> ordinal d + n \<le> MAXORDINAL
      then Inr (d\<lparr>ordinal := ordinal d + n\<rparr>)
      else Inl OverflowError)"

definition weekday :: "datetime \<Rightarrow> int" where
  "weekday d = (ordinal d + 6) mod 7"

definition is_leap :: "int \<Rightarrow> bool" where
  "is_leap y = (y mod 4 = 0 \<and> (y mod 100 \<noteq> 0 \<or> y mod 400 = 0))"

definition days_in_month :: "int \<Rightarrow> int \<Rightarrow> int" where
  "days_in_month y m =
     (if m = 2 then (if is_leap y then 29 else 28)
      else if m \<in> set [4, 6, 9, 11] then 30 else 31)"

definition days_before_year :: "int \<Rightarrow> int" where
  "days_before_year y = (y - 1) * 365 + (y - 1) div 4 - (y - 1) div 100 + (y - 1) div 400"

definition ymd2ord :: "int \<Rightarrow> int \<Rightarrow> int \<Rightarrow> int" where
  "ymd2ord y m d = days_before_year y + sum_list (map (days_in_month y) [1..m - 1]) + d"

text \<open>\<^verbatim>\<open>datetime(year, month, day)\<close>; \<open>None\<close> is \<^verbatim>\<open>ValueError\<close>.\<close>

definition make_datetime :: "int \<Rightarrow> int \<Rightarrow> int \<Rightarrow> datetime option" where
  "make_datetime y m d =
     (if 1 \<le> y \<and> y \<le> 9999 \<and> 1 \<le> m \<and> m \<le> 12 \<and> 1 \<le> d \<and> d \<le> days_in_month y m
      then Some \<lparr>ordinal = ymd2ord y m d, micros = 0\<rparr>
      else None)"

definition year_of :: "datetime \<Rightarrow> int" where
  "year_of d =
     (let n = ordinal d - 1;
          n400 = n div 146097; n = n mod 146097;
          n100 = n div 36524; n = n mod 36524;
          n4 = n div 1461; n = n mod 1461;
          n1 = n div 365;
          year = n400 * 400 + 1 + n100 * 100 + n4 * 4 + n1
      in if n1 = 4 \<or> n100 = 4 then year - 1 else year)"

text \<open>What the external calendar script can do with an invocation: exit with a return
  code, standard output and standard error; run into the 30 second timeout; or fail to
  run at all (any other exception of \<^verbatim>\<open>subprocess.run\<close>, with its message).\<close>

datatype proc_outcome =
    Exited int string string
  | TimeoutExpired
  | RunFailed string

text \<open>The three patterns that \<^verbatim>\<open>extract_deadline_from_text\<close> searches for, in its order:
  deadline|due followed by an ISO date; by|due|before followed by a month name, a day and
  an optional year; in N day|week|month.\<close>

datatype pattern = DatePattern | MonthPattern | RelativePattern

text \<open>
  The environment of a run: the clock, the calendar script (what the n-th invocation of
  the run does with its arguments) and the text parsers of the Python library, which are
  not part of the module. \<open>None\<close> from a parser is its \<^verbatim>\<open>ValueError\<close> (for
  \<open>json_loads\<close> its \<^verbatim>\<open>JSONDecodeError\<close>, for \<open>re_search\<close> no match); a match is the list of
  its groups, \<open>None\<close> for a group that did not take part. \<open>fromisoformat\<close> gives the parsed
  time with its zone dropped.
\<close>

record env =
  now :: datetime
  utcnow_iso :: string
  calendar_script :: "nat \<Rightarrow> json list \<Rightarrow> proc_outcome"
  json_loads :: "string \<Rightarrow> json option"
  re_search :: "pattern \<Rightarrow> string \<Rightarrow> string option list option"
  fromisoformat :: "string \<Rightarrow> datetime option"
  strptime :: "string \<Rightarrow> string \<Rightarrow> datetime option"
  strftime :: "datetime \<Rightarrow> string \<Rightarrow> string"

section \<open>Deadline resolution\<close>

definition DEFAULT_DEADLINE_DAYS :: int where
  "DEFAULT_DEADLINE_DAYS = 7"

definition month_names :: "(string \<times> int) list" where
  "month_names =
     [(''jan'', 1), (''january'', 1), (''feb'', 2), (''february'', 2), (''mar'', 3), (''march'', 3),
      (''apr'', 4), (''april'', 4), (''may'', 5), (''jun'', 6), (''june'', 6), (''jul'', 7), (''july'', 7),
      (''aug'', 8), (''august'', 8), (''sep'', 9), (''september'', 9), (''oct'', 10), (''october'', 10),
      (''nov'', 11), (''november'', 11), (''dec'', 12), (''december'', 12)]"

definition group :: "string option list \<Rightarrow> nat \<Rightarrow> string option" where
  "group gs i = (if 1 \<le> i \<and> i \<le> length gs then gs ! (i - 1) else None)"

text \<open>The first pattern: a date that \<^verbatim>\<open>strptime\<close> rejects falls through.\<close>

definition date_pattern :: "env \<Rightarrow> string \<Rightarrow> exn + datetime option" where
  "date_pattern E t =
     (case re_search E DatePattern t of
        None \<Rightarrow> Inr None
      | Some gs \<Rightarrow>
          (case group gs 1 of
             None \<Rightarrow> Inl TypeError
           | Some g \<Rightarrow> Inr (strptime E g ''%Y-%m-%d'')))"

text \<open>The second pattern: \<^verbatim>\<open>ValueError\<close> and \<^verbatim>\<open>KeyError\<close> fall through.\<close>

definition month_pattern :: "env \<Rightarrow> string \<Rightarrow> exn + datetime option" where
  "month_pattern E t =
     (case re_search E MonthPattern t of
        None \<Rightarrow> Inr None
      | Some gs \<Rightarrow>
          (case group gs 2 of
             None \<Rightarrow> Inl TypeError
           | Some g2 \<Rightarrow>
               (case parse_int g2 of
                  None \<Rightarrow> Inr None
                | Some day \<Rightarrow>
                    (case (if group gs 3 \<in> {None, Some []} then Some (year_of (now E))
                           else parse_int (the (group gs 3))) of
                       None \<Rightarrow> Inr None
                     | Some year \<Rightarrow>
                         (case (case group gs 1 of None \<Rightarrow> None | Some g1 \<Rightarrow> map_of month_names g1) of
                            None \<Rightarrow> Inl TypeError
                          | Some month \<Rightarrow> Inr (make_datetime year month day))))))"

text \<open>The third pattern; a unit other than the three gives no date.\<close>

definition relative_pattern :: "env \<Rightarrow> string \<Rightarrow> exn + datetime option" where
  "relative_pattern E t =
     (case re_search E RelativePattern t of
        None \<Rightarrow> Inr None
      | Some gs \<Rightarrow>
          (case group gs 1 of
             None \<Rightarrow> Inl TypeError
           | Some g1 \<Rightarrow>
               (case parse_int g1 of
                  None \<Rightarrow> Inl ValueError
                | Some num \<Rightarrow>
                    (if group gs 2 = Some ''day'' then map_sum id Some (plus_days (now E) num)
                     else if group gs 2 = Some ''week'' then map_sum id Some (plus_days (now E) (7 * num))
                     else if group gs 2 = Some ''month'' then map_sum id Some (plus_days (now E) (num * 30))
                     else Inr None))))"

definition extract_deadline_from_text :: "env \<Rightarrow> json \<Rightarrow> exn + datetime option" where
  "extract_deadline_from_text E text =
     (if \<not> truthy text then Inr None
      else case text of
        JStr s \<Rightarrow>
          (let text_lower = lower s in
           case date_pattern E text_lower of
             Inl e \<Rightarrow> Inl e
           | Inr (Some d) \<Rightarrow> Inr (Some d)
           | Inr None \<Rightarrow>
               (case month_pattern E text_lower of
                  Inl e \<Rightarrow> Inl e
                | Inr (Some d) \<Rightarrow> Inr (Some d)
                | Inr None \<Rightarrow> relative_pattern E text_lower))
      | _ \<Rightarrow> Inl AttributeError)"

text \<open>The items a \<^verbatim>\<open>for\<close> loop visits: the elements of a list, the characters of a string,
  the keys of a dict.\<close>

definition py_iter :: "json \<Rightarrow> exn + json list" where
  "py_iter v =
     (case v of
        JList xs \<Rightarrow> Inr xs
      | JStr s \<Rightarrow> Inr (map (\<lambda>c. JStr [c]) s)
      | JObj kvs \<Rightarrow> Inr (map (\<lambda>kv. JStr (fst kv)) kvs)
      | _ \<Rightarrow> Inl TypeError)"

fun labels_loop :: "env \<Rightarrow> json list \<Rightarrow> exn + datetime option" where
  "labels_loop E [] = Inr None"
| "labels_loop E (label # rest) =
     (let label_str = lower (py_str label) in
      case (if startswith label_str ''deadline:''
            then strptime E (split_on CHR '':'' label_str ! 1) ''%Y-%m-%d'' else None) of
        Some d \<Rightarrow> Inr (Some d)
      | None \<Rightarrow>
          (case (if startswith label_str ''due-''
                 then strptime E (drop 4 label_str) ''%Y-%m-%d'' else None) of
             Some d \<Rightarrow> Inr (Some d)
           | None \<Rightarrow>
               if label_str = ''this-week''
                 then map_sum id Some (plus_days (now E) (7 - weekday (now E)))
               else if label_str = ''next-week''
                 then map_sum id Some (plus_days (now E) (14 - weekday (now E)))
               else labels_loop E rest))"

definition extract_deadline_from_labels :: "env \<Rightarrow> json \<Rightarrow> exn + datetime option" where
  "extract_deadline_from_labels E labels =
     (if \<not> truthy labels then Inr None
      else then_do (py_iter labels) (labels_loop E))"

text \<open>\<^verbatim>\<open>s.replace("Z", "+00:00")\<close>.\<close>

definition replace_Z :: "string \<Rightarrow> string" where
  "replace_Z s = concat (map (\<lambda>c. if c = CHR ''Z'' then ''+00:00'' else [c]) s)"

text \<open>Step 1 of \<^verbatim>\<open>get_deadline\<close>: the \<^verbatim>\<open>deadline\<close> field as an ISO timestamp, and as free
  text when that raises \<^verbatim>\<open>ValueError\<close> or (no string) \<^verbatim>\<open>AttributeError\<close>.\<close>

definition deadline_field :: "env \<Rightarrow> (string \<times> json) list \<Rightarrow> exn + datetime option" where
  "deadline_field E meta =
     (case map_of meta ''deadline'' of
        None \<Rightarrow> Inr None
      | Some v \<Rightarrow>
          (case (case v of JStr s \<Rightarrow> fromisoformat E (replace_Z s) | _ \<Rightarrow> None) of
             Some d \<Rightarrow> Inr (Some d)
           | None \<Rightarrow> extract_deadline_from_text E (JStr (py_str v))))"

text \<open>Step 2: the \<^verbatim>\<open>due_date\<close> field; \<^verbatim>\<open>strptime\<close> raises \<^verbatim>\<open>TypeError\<close> on a value that is
  no string.\<close>

definition due_date_field :: "env \<Rightarrow> (string \<times> json) list \<Rightarrow> exn + datetime option" where
  "due_date_field E meta =
     (case map_of meta ''due_date'' of
        None \<Rightarrow> Inr None
      | Some (JStr s) \<Rightarrow> Inr (strptime E s ''%Y-%m-%d'')
      | Some _ \<Rightarrow> Inl TypeError)"

text \<open>Step 6: the offset in days by normalized priority.\<close>

definition priority_days :: "(string \<times> int) list" where
  "priority_days = [(''P1'', 3), (''P2'', 7), (''P3'', 14), (''P4'', 30)]"

definition fallback_days :: "(string \<times> json) list \<Rightarrow> int \<Rightarrow> int" where
  "fallback_days meta default_days =
     (case map_of priority_days (normalize_priority (dict_get meta ''priority'' JNull)) of
        None \<Rightarrow> default_days
      | Some n \<Rightarrow> n)"

text \<open>The first step that gives a date wins; an exception of a step leaves the function.\<close>

fun first_date :: "(exn + datetime option) list \<Rightarrow> exn + datetime \<Rightarrow> exn + datetime" where
  "first_date [] final = final"
| "first_date (Inl e # rest) final = Inl e"
| "first_date (Inr (Some d) # rest) final = Inr d"
| "first_date (Inr None # rest) final = first_date rest final"

definition get_deadline :: "env \<Rightarrow> (string \<times> json) list \<Rightarrow> int \<Rightarrow> exn + datetime" where
  "get_deadline E meta default_days =
     first_date
       [deadline_field E meta,
        due_date_field E meta,
        extract_deadline_from_labels E (dict_get meta ''labels'' (JList [])),
        extract_deadline_from_text E (dict_get meta ''description'' (JStr [])),
        extract_deadline_from_text E (dict_get meta ''notes'' (JStr []))]
       (plus_days (now E) (fallback_days meta default_days))"

section \<open>Event content\<close>

definition GITHUB_REPO :: string where
  "GITHUB_REPO = ''ShawnOwen/stacks-ranking-priorities''"

definition clipboard :: string where
  "clipboard = [CHR 0xF0, CHR 0x9F, CHR 0x93, CHR 0x8B]"

definition link_sign :: string where
  "link_sign = [CHR 0xF0, CHR 0x9F, CHR 0x94, CHR 0x97]"

definition bullet :: string where
  "bullet = [CHR 0xE2, CHR 0x80, CHR 0xA2]"

definition calendar_sign :: string where
  "calendar_sign = [CHR 0xF0, CHR 0x9F, CHR 0x93, CHR 0x85]"

definition chart_sign :: string where
  "chart_sign = [CHR 0xF0, CHR 0x9F, CHR 0x93, CHR 0x8A]"

definition build_event_title :: "string \<Rightarrow> (string \<times> json) list \<Rightarrow> exn + string" where
  "build_event_title thread_id meta =
     (let name = dict_get meta ''name'' (JStr thread_id);
          priority = normalize_priority (dict_get meta ''priority'' JNull);
          emoji = get_priority_emoji priority
      in then_do (py_get (dict_get meta ''sync'' (JObj [])) ''github_issue_number'' JNull)
           (\<lambda>issue_num.
              if truthy issue_num
              then Inr (emoji @ '' '' @ priority @ '': #'' @ py_str issue_num @ '' - '' @ py_str name)
              else Inr (emoji @ '' '' @ priority @ '': '' @ py_str name)))"

definition build_event_description :: "env \<Rightarrow> string \<Rightarrow> (string \<times> json) list \<Rightarrow> exn + string" where
  "build_event_description E thread_id meta =
     (let name = dict_get meta ''name'' (JStr thread_id);
          sync = dict_get meta ''sync'' (JObj [])
      in then_do (py_get sync ''github_issue_number'' JNull)
           (\<lambda>issue_num.
              then_do (py_get sync ''gdrive_folder_url'' JNull)
                (\<lambda>gdrive_url.
                   then_do (get_deadline E meta DEFAULT_DEADLINE_DAYS)
                     (\<lambda>deadline.
                        Inr (join [CHR 0x0A]
                          ([clipboard @ '' Task Thread: '' @ py_str name,
                            ''Priority: '' @ normalize_priority (dict_get meta ''priority'' JNull),
                            [],
                            link_sign @ '' Links:'']
                           @ (if truthy issue_num
                              then [bullet @ '' GitHub: https://github.com/'' @ GITHUB_REPO
                                      @ ''/issues/'' @ py_str issue_num]
                              else [])
                           @ (if truthy gdrive_url
                              then [bullet @ '' GDrive: '' @ py_str gdrive_url]
                              else [])
                           @ [bullet @ '' Thread: /equabot/threads/'' @ thread_id @ ''/'',
                              bullet @ '' Session: agent:main:task-thread:''
                                @ (if truthy issue_num then py_str issue_num else thread_id),
                              [],
                              calendar_sign @ '' Deadline: '' @ strftime E deadline ''%Y-%m-%d'',
                              chart_sign @ '' Status: ''
                                @ py_str (dict_get meta ''status'' (JStr ''active''))]))))))"

section \<open>Calendar gateway\<close>

text \<open>
  \<^verbatim>\<open>run_calendar_command\<close> catches the timeout and every other exception of the
  invocation. \<open>n\<close> is the number of invocations the run has made before this one.
\<close>

definition run_calendar_command :: "env \<Rightarrow> nat \<Rightarrow> json list \<Rightarrow> bool \<times> string" where
  "run_calendar_command E n args =
     (case calendar_script E n args of
        Exited returncode out err \<Rightarrow> (returncode = 0, out @ err)
      | TimeoutExpired \<Rightarrow> (False, ''Command timed out'')
      | RunFailed msg \<Rightarrow> (False, msg))"

definition NO_ID :: json where
  "NO_ID = JStr ''created_no_id''"

text \<open>The slice \<^verbatim>\<open>event_id[:20]\<close> of the log line: a string or a list has it, another
  value raises.\<close>

fun sliceable :: "json \<Rightarrow> bool" where
  "sliceable (JStr s) = True"
| "sliceable (JList xs) = True"
| "sliceable v = False"

text \<open>The event id in the output of a successful \<^verbatim>\<open>create\<close>: everything from the first
  brace to the end of the output is given to \<^verbatim>\<open>json.loads\<close>.\<close>

definition extract_event_id :: "env \<Rightarrow> string \<Rightarrow> exn + json" where
  "extract_event_id E output =
     (if CHR ''{'' \<in> set output
      then (case json_loads E (dropWhile (\<lambda>c. c \<noteq> CHR ''{'') output) of
              None \<Rightarrow> Inr NO_ID
            | Some event_data \<Rightarrow>
                then_do (py_get event_data ''id'' JNull)
                  (\<lambda>event_id.
                     if truthy event_id
                     then (if sliceable event_id then Inr event_id else Inl TypeError)
                     else Inr NO_ID))
      else Inr NO_ID)"

definition event_args :: "env \<Rightarrow> string \<Rightarrow> (string \<times> json) list \<Rightarrow> exn + (string \<times> json list)" where
  "event_args E thread_id meta =
     then_do (build_event_title thread_id meta)
       (\<lambda>title.
          then_do (build_event_description E thread_id meta)
            (\<lambda>description.
               then_do (get_deadline E meta DEFAULT_DEADLINE_DAYS)
                 (\<lambda>deadline.
                    Inr (title,
                         [JStr ''--start'', JStr (strftime E deadline ''%Y-%m-%dT09:00:00''),
                          JStr ''--end'', JStr (strftime E deadline ''%Y-%m-%dT10:00:00''),
                          JStr ''--description'', JStr description,
                          JStr ''--color'',
                          JStr (priority_color (normalize_priority (dict_get meta ''priority'' JNull)))]))))"

text \<open>The gateway operations take the invocations made so far and return them with
  their own appended. \<^verbatim>\<open>create\<close> returns the event id, \<open>NO_ID\<close> or \<open>None\<close>.\<close>

definition create_calendar_event ::
  "env \<Rightarrow> json list list \<Rightarrow> string \<Rightarrow> (string \<times> json) list \<Rightarrow> exn + (json option \<times> json list list)" where
  "create_calendar_event E cs thread_id meta =
     then_do (event_args E thread_id meta)
       (\<lambda>(title, rest).
          let args = [JStr ''create'', JStr title] @ rest;
              (success, output) = run_calendar_command E (length cs) args
          in if success
             then then_do (extract_event_id E output) (\<lambda>event_id. Inr (Some event_id, cs @ [args]))
             else Inr (None, cs @ [args]))"

definition update_calendar_event ::
  "env \<Rightarrow> json list list \<Rightarrow> json \<Rightarrow> string \<Rightarrow> (string \<times> json) list \<Rightarrow> exn + (bool \<times> json list list)" where
  "update_calendar_event E cs event_id thread_id meta =
     then_do (event_args E thread_id meta)
       (\<lambda>(title, rest).
          let args = [JStr ''update'', event_id, JStr ''--title'', JStr title] @ rest;
              (success, output) = run_calendar_command E (length cs) args
          in Inr (success, cs @ [args]))"

definition delete_calendar_event :: "env \<Rightarrow> json list list \<Rightarrow> json \<Rightarrow> bool \<times> json list list" where
  "delete_calendar_event E cs event_id =
     (let args = [JStr ''delete'', event_id];
          (success, output) = run_calendar_command E (length cs) args
      in (success, cs @ [args]))"

section \<open>Fingerprint\<close>

definition get_thread_hash :: "(string \<times> json) list \<Rightarrow> exn + string" where
  "get_thread_hash meta =
     then_do (py_sorted (dict_get meta ''labels'' (JList [])))
       (\<lambda>labels.
          Inr (dumps_sorted (JObj
            [(''name'', dict_get meta ''name'' JNull),
             (''priority'', JStr (normalize_priority (dict_get meta ''priority'' JNull))),
             (''status'', dict_get meta ''status'' JNull),
             (''deadline'', dict_get meta ''deadline'' JNull),
             (''labels'', JList labels)])))"

section \<open>Reconciler\<close>

text \<open>
  The content of a \<^verbatim>\<open>meta.json\<close>: text that \<^verbatim>\<open>json.loads\<close> rejects, or the parsed document.
  The state of a run: the \<^verbatim>\<open>synced_threads\<close> dict of the sync state (thread id to sync
  entry), the thread directories that hold a \<^verbatim>\<open>meta.json\<close>, and the invocations of the
  calendar script made so far.
\<close>

datatype doc = Malformed | Parsed json

record run_state =
  synced_threads :: "(string \<times> json) list"
  threads :: "(string \<times> doc) list"
  calls :: "json list list"

definition stamp :: "env \<Rightarrow> json" where
  "stamp E = JStr (utcnow_iso E @ ''Z'')"

text \<open>The branch for a status of done, closed or completed.\<close>

definition sync_closed :: "env \<Rightarrow> string \<Rightarrow> json \<Rightarrow> run_state \<Rightarrow> exn + (string \<times> run_state)" where
  "sync_closed E thread_id synced_info s =
     (if truthy synced_info
      then then_do (py_get synced_info ''event_id'' JNull)
             (\<lambda>event_id.
                if truthy event_id
                then Inr (''deleted'',
                       s\<lparr>synced_threads := dict_del (synced_threads s) thread_id,
                         calls := (if event_id \<noteq> NO_ID
                                   then snd (delete_calendar_event E (calls s) event_id)
                                   else calls s)\<rparr>)
                else Inr (''skipped'', s))
      else Inr (''skipped'', s))"

text \<open>The update of an event whose thread changed: success refreshes hash and
  \<^verbatim>\<open>updated_at\<close> of the entry in place.\<close>

definition sync_update ::
  "env \<Rightarrow> string \<Rightarrow> (string \<times> json) list \<Rightarrow> string \<Rightarrow> (string \<times> json) list \<Rightarrow> json \<Rightarrow> run_state
     \<Rightarrow> exn + (string \<times> run_state)" where
  "sync_update E thread_id meta current_hash info event_id s =
     then_do (update_calendar_event E (calls s) event_id thread_id meta)
       (\<lambda>(ok, cs).
          if ok
          then Inr (''updated'',
                 s\<lparr>synced_threads :=
                     dict_set (synced_threads s) thread_id
                       (JObj (dict_set (dict_set info ''hash'' (JStr current_hash))
                                ''updated_at'' (stamp E))),
                   calls := cs\<rparr>)
          else Inr (''error'', s\<lparr>calls := cs\<rparr>))"

text \<open>The creation of an event, with the write-back of the event id into \<^verbatim>\<open>meta.json\<close>.\<close>

definition sync_create ::
  "env \<Rightarrow> string \<Rightarrow> (string \<times> json) list \<Rightarrow> string \<Rightarrow> run_state \<Rightarrow> exn + (string \<times> run_state)" where
  "sync_create E thread_id meta current_hash s =
     then_do (create_calendar_event E (calls s) thread_id meta)
       (\<lambda>(created, cs).
          case created of
            None \<Rightarrow> Inr (''error'', s\<lparr>calls := cs\<rparr>)
          | Some event_id \<Rightarrow>
              if truthy event_id
              then then_do (py_get (dict_get meta ''sync'' (JObj [])) ''github_issue_number'' JNull)
                     (\<lambda>issue_number.
                        let entry = JObj
                              [(''event_id'', event_id),
                               (''synced_at'', stamp E),
                               (''issue_number'', issue_number),
                               (''hash'', JStr current_hash),
                               (''priority'', JStr (normalize_priority (dict_get meta ''priority'' JNull)))];
                            meta1 = (if map_of meta ''sync'' = None
                                     then meta @ [(''sync'', JObj [])] else meta)
                        in case dict_get meta1 ''sync'' JNull of
                             JObj sync \<Rightarrow>
                               Inr (''created'',
                                 s\<lparr>synced_threads := dict_set (synced_threads s) thread_id entry,
                                   threads := AList.update thread_id
                                     (Parsed (JObj (dict_set meta1 ''sync''
                                        (JObj (dict_set (dict_set sync ''calendar_event_id'' event_id)
                                           ''calendar_synced_at'' (stamp E))))))
                                     (threads s),
                                   calls := cs\<rparr>)
                           | _ \<Rightarrow> Inl TypeError)
              else Inr (''error'', s\<lparr>calls := cs\<rparr>))"

text \<open>The branch for any other status.\<close>

definition sync_active ::
  "env \<Rightarrow> string \<Rightarrow> (string \<times> json) list \<Rightarrow> string \<Rightarrow> json \<Rightarrow> run_state \<Rightarrow> exn + (string \<times> run_state)" where
  "sync_active E thread_id meta current_hash synced_info s =
     (if truthy synced_info
      then (case synced_info of
              JObj info \<Rightarrow>
                if dict_get info ''hash'' JNull = JStr current_hash
                then Inr (''skipped'', s)
                else (let event_id = dict_get info ''event_id'' JNull
                      in if truthy event_id \<and> event_id \<noteq> NO_ID
                         then sync_update E thread_id meta current_hash info event_id s
                         else sync_create E thread_id meta current_hash s)
            | _ \<Rightarrow> Inl AttributeError)
      else sync_create E thread_id meta current_hash s)"

definition terminal_status :: "json \<Rightarrow> bool" where
  "terminal_status status = (status \<in> set [JStr ''done'', JStr ''closed'', JStr ''completed''])"

definition sync_thread_to_calendar :: "env \<Rightarrow> string \<Rightarrow> run_state \<Rightarrow> exn + (string \<times> run_state)" where
  "sync_thread_to_calendar E thread_id s =
     (case map_of (threads s) thread_id of
        None \<Rightarrow> Inr (''skipped'', s)
      | Some Malformed \<Rightarrow> Inr (''error'', s)
      | Some (Parsed (JObj meta)) \<Rightarrow>
          (let status = dict_get meta ''status'' (JStr ''active'');
               synced_info = dict_get (synced_threads s) thread_id JNull
           in if terminal_status status
              then sync_closed E thread_id synced_info s
              else then_do (get_thread_hash meta)
                     (\<lambda>current_hash. sync_active E thread_id meta current_hash synced_info s))
      | Some (Parsed _) \<Rightarrow> Inl AttributeError)"

subsection \<open>Orphan cleanup\<close>

definition cleanup_one :: "env \<Rightarrow> string \<Rightarrow> run_state \<Rightarrow> exn + run_state" where
  "cleanup_one E thread_id s =
     (case map_of (synced_threads s) thread_id of
        None \<Rightarrow> Inl KeyError
      | Some synced_info \<Rightarrow>
          then_do (py_get synced_info ''event_id'' JNull)
            (\<lambda>event_id.
               Inr (s\<lparr>synced_threads := dict_del (synced_threads s) thread_id,
                      calls := (if truthy event_id \<and> event_id \<noteq> NO_ID
                                then snd (delete_calendar_event E (calls s) event_id)
                                else calls s)\<rparr>)))"

fun cleanup_loop :: "env \<Rightarrow> string list \<Rightarrow> run_state \<Rightarrow> exn + run_state" where
  "cleanup_loop E [] s = Inr s"
| "cleanup_loop E (thread_id # rest) s = then_do (cleanup_one E thread_id s) (cleanup_loop E rest)"

definition orphaned_ids :: "run_state \<Rightarrow> string list" where
  "orphaned_ids s = filter (\<lambda>thread_id. map_of (threads s) thread_id = None) (map fst (synced_threads s))"

definition cleanup_orphaned_events :: "env \<Rightarrow> run_state \<Rightarrow> exn + (nat \<times> run_state)" where
  "cleanup_orphaned_events E s =
     then_do (cleanup_loop E (orphaned_ids s) s) (\<lambda>s'. Inr (length (orphaned_ids s), s'))"

subsection \<open>The run\<close>

definition stat :: "(string \<times> int) list \<Rightarrow> string \<Rightarrow> int" where
  "stat stats k = (case map_of stats k of None \<Rightarrow> 0 | Some n \<Rightarrow> n)"

definition count_result :: "(string \<times> int) list \<Rightarrow> string \<Rightarrow> (string \<times> int) list" where
  "count_result stats result = AList.update result (stat stats result + 1) stats"

fun sync_loop ::
  "env \<Rightarrow> string list \<Rightarrow> (string \<times> int) list \<Rightarrow> run_state \<Rightarrow> exn + ((string \<times> int) list \<times> run_state)" where
  "sync_loop E [] stats s = Inr (stats, s)"
| "sync_loop E (thread_id # rest) stats s =
     then_do (sync_thread_to_calendar E thread_id s)
       (\<lambda>(result, s'). sync_loop E rest (count_result stats result) s')"

definition initial_stats :: "(string \<times> int) list" where
  "initial_stats = [(''created'', 0), (''updated'', 0), (''deleted'', 0), (''skipped'', 0), (''errors'', 0)]"

text \<open>One pass of \<^verbatim>\<open>main\<close> up to the statistics of the run: orphan cleanup, then every
  thread directory with a \<^verbatim>\<open>meta.json\<close>, in sorted order.\<close>

definition run_sync :: "env \<Rightarrow> run_state \<Rightarrow> exn + ((string \<times> int) list \<times> run_state)" where
  "run_sync E s =
     then_do (cleanup_orphaned_events E s)
       (\<lambda>(orphaned, s1).
          sync_loop E (sort (map fst (threads s1)))
            (if orphaned \<noteq> 0
             then AList.update ''deleted'' (stat initial_stats ''deleted'' + int orphaned) initial_stats
             else initial_stats)
            s1)"

text \<open>The persisted sync state; \<open>sync_stats\<close> is absent in a state file that lacks it.\<close>

record sync_state =
  st_synced_threads :: "(string \<times> json) list"
  st_last_sync :: json
  st_sync_stats :: "(string \<times> int) list option"

definition add_stats :: "(string \<times> int) list \<Rightarrow> (string \<times> int) list \<Rightarrow> string list \<Rightarrow> (string \<times> int) list" where
  "add_stats totals stats keys = foldl (\<lambda>acc key. AList.update key (stat acc key + stat stats key) acc) totals keys"

definition save_state :: "env \<Rightarrow> sync_state \<Rightarrow> sync_state" where
  "save_state E state = state\<lparr>st_last_sync := stamp E\<rparr>"

text \<open>\<^verbatim>\<open>main\<close>: the exit code, the state that is saved, the statistics of the run and the
  final run state.\<close>

definition main ::
  "env \<Rightarrow> sync_state \<Rightarrow> (string \<times> doc) list
     \<Rightarrow> exn + (int \<times> sync_state \<times> (string \<times> int) list \<times> run_state)" where
  "main E state dirs =
     then_do (run_sync E \<lparr>synced_threads = st_synced_threads state, threads = dirs, calls = []\<rparr>)
       (\<lambda>(stats, s).
          let totals = (case st_sync_stats state of
                          None \<Rightarrow> [(''created'', 0), (''updated'', 0), (''deleted'', 0), (''errors'', 0)]
                        | Some t \<Rightarrow> t);
              state' = save_state E
                (state\<lparr>st_synced_threads := synced_threads s,
                       st_sync_stats := Some (add_stats totals stats
                          [''created'', ''updated'', ''deleted'', ''errors''])\<rparr>)
          in Inr (if stat stats ''errors'' > 0 then 1 else 0, state', stats, s))"

section \<open>Saving the state file\<close>

text \<open>
  \<^verbatim>\<open>save_state\<close> writes with \<^verbatim>\<open>STATE_FILE.write_text(text)\<close>, which opens the file for
  writing (that creates it or cuts it to length zero), writes the text and closes it.
  A file is \<open>None\<close> while it does not exist. A crash after \<open>k\<close> of these steps leaves what
  the first \<open>k\<close> steps have done.
\<close>

datatype file_op = Truncate | Write string

fun apply_file_op :: "string option \<Rightarrow> file_op \<Rightarrow> string option" where
  "apply_file_op f Truncate = Some []"
| "apply_file_op f (Write t) = Some ((case f of None \<Rightarrow> [] | Some old \<Rightarrow> old) @ t)"

definition write_text :: "string \<Rightarrow> file_op list" where
  "write_text t = [Truncate, Write t]"

definition crash_after :: "nat \<Rightarrow> file_op list \<Rightarrow> string option \<Rightarrow> string option" where
  "crash_after k ops f = foldl apply_file_op f (take k ops)"

section \<open>Example environments\<close>

text \<open>An environment with a given calendar script and JSON parser; no pattern matches
  and no date parses in it.\<close>

definition example_env :: "(nat \<Rightarrow> json list \<Rightarrow> proc_outcome) \<Rightarrow> (string \<Rightarrow> json option) \<Rightarrow> env" where
  "example_env script loads =
     \<lparr>now = \<lparr>ordinal = 739600, micros = 0\<rparr>,
      utcnow_iso = ''2026-01-01T00:00:00'',
      calendar_script = script,
      json_loads = loads,
      re_search = (\<lambda>p t. None),
      fromisoformat = (\<lambda>s. None),
      strptime = (\<lambda>s f. None),
      strftime = (\<lambda>d f. f)\<rparr>"

text \<open>The text \<^verbatim>\<open>{"id": "evt1"}\<close>, and a parser that knows this one document.\<close>

definition id_json :: string where
  "id_json = ''{'' @ [CHR 0x22] @ ''id'' @ [CHR 0x22] @ '': '' @ [CHR 0x22] @ ''evt1'' @ [CHR 0x22] @ ''}''"

definition loads_id :: "string \<Rightarrow> json option" where
  "loads_id t = (if t = id_json then Some (JObj [(''id'', JStr ''evt1'')]) else None)"

text \<open>A calendar that always succeeds and prints the document; one that prints a line
  after it; one that always exits with code 1; one that always times out.\<close>

definition env_ok :: env where
  "env_ok = example_env (\<lambda>n args. Exited 0 id_json []) loads_id"

definition env_trailing :: env where
  "env_trailing = example_env (\<lambda>n args. Exited 0 (id_json @ '' done'') []) loads_id"

definition env_fail :: env where
  "env_fail = example_env (\<lambda>n args. Exited 1 [] ''quota exceeded'') loads_id"

definition env_timeout :: env where
  "env_timeout = example_env (\<lambda>n args. TimeoutExpired) loads_id"

text \<open>What the claims call a failed invocation: a non-zero exit, the timeout, or any
  other error of the invocation.\<close>

fun failure :: "proc_outcome \<Rightarrow> bool" where
  "failure (Exited returncode out err) = (returncode \<noteq> 0)"
| "failure TimeoutExpired = True"
| "failure (RunFailed msg) = True"

section \<open>The gateway never raises on a failed invocation\<close>

lemma then_do_Inr [simp]: "then_do (Inr x) f = f x"
  by (simp add: then_do_def)

lemma then_do_Inl [simp]: "then_do (Inl e) f = Inl e"
  by (simp add: then_do_def)

lemma then_do_eq_Inr: "then_do r f = Inr y \<longleftrightarrow> (\<exists>x. r = Inr x \<and> f x = Inr y)"
  by (cases r) auto

lemma run_calendar_command_failure:
  "failure (calendar_script E n args) \<Longrightarrow> \<exists>msg. run_calendar_command E n args = (False, msg)"
  by (cases "calendar_script E n args") (auto simp: run_calendar_command_def)

text \<open>
  C6. Whenever the invocation of the calendar script ends with a non-zero exit code, in
  the timeout or in any other error, \<^verbatim>\<open>run_calendar_command\<close> returns the flag \<open>False\<close> with
  a diagnostic string, and the three operations return their failure value (\<open>False\<close> for
  delete and update, \<open>None\<close> for create) without an exception.
\<close>

theorem gateway_failure_is_a_result:
  assumes "failure (calendar_script E (length cs) args)"
  shows "(\<exists>msg. run_calendar_command E (length cs) args = (False, msg))
       \<and> (\<forall>event_id. args = [JStr ''delete'', event_id]
             \<longrightarrow> delete_calendar_event E cs event_id = (False, cs @ [args]))
       \<and> (\<forall>event_id thread_id meta title rest.
             event_args E thread_id meta = Inr (title, rest)
             \<and> args = [JStr ''update'', event_id, JStr ''--title'', JStr title] @ rest
             \<longrightarrow> update_calendar_event E cs event_id thread_id meta = Inr (False, cs @ [args]))
       \<and> (\<forall>thread_id meta title rest.
             event_args E thread_id meta = Inr (title, rest)
             \<and> args = [JStr ''create'', JStr title] @ rest
             \<longrightarrow> create_calendar_event E cs thread_id meta = Inr (None, cs @ [args]))"
proof -
  from run_calendar_command_failure [OF assms]
  obtain msg where m: "run_calendar_command E (length cs) args = (False, msg)" by blast
  have d: "\<forall>event_id. args = [JStr ''delete'', event_id]
             \<longrightarrow> delete_calendar_event E cs event_id = (False, cs @ [args])"
    using m by (auto simp: delete_calendar_event_def)
  have u: "\<forall>event_id thread_id meta title rest.
             event_args E thread_id meta = Inr (title, rest)
             \<and> args = [JStr ''update'', event_id, JStr ''--title'', JStr title] @ rest
             \<longrightarrow> update_calendar_event E cs event_id thread_id meta = Inr (False, cs @ [args])"
    using m by (auto simp: update_calendar_event_def)
  have c: "\<forall>thread_id meta title rest.
             event_args E thread_id meta = Inr (title, rest)
             \<and> args = [JStr ''create'', JStr title] @ rest
             \<longrightarrow> create_calendar_event E cs thread_id meta = Inr (None, cs @ [args])"
    using m by (auto simp: create_calendar_event_def)
  from m d u c show ?thesis by blast
qed

theorem gateway_failure_is_a_result_witness:
  "failure (calendar_script env_timeout (length ([] :: json list list)) [JStr ''delete'', JStr ''evt1''])
   \<and> run_calendar_command env_timeout 0 [JStr ''delete'', JStr ''evt1''] = (False, ''Command timed out'')
   \<and> delete_calendar_event env_timeout [] (JStr ''evt1'') = (False, [[JStr ''delete'', JStr ''evt1'']])"
proof -
  have h: "failure (calendar_script env_timeout (length ([] :: json list list)) [JStr ''delete'', JStr ''evt1''])"
    by (simp add: env_timeout_def example_env_def)
  have r: "run_calendar_command env_timeout 0 [JStr ''delete'', JStr ''evt1''] = (False, ''Command timed out'')"
    by (simp add: run_calendar_command_def env_timeout_def example_env_def)
  from gateway_failure_is_a_result [OF h] have
    "delete_calendar_event env_timeout [] (JStr ''evt1'') = (False, [] @ [[JStr ''delete'', JStr ''evt1'']])"
    by blast
  with h r show ?thesis by simp
qed

section \<open>The fingerprint\<close>

text \<open>
  C8. Two task records with the same name, the same normalized priority, the same
  status, the same raw \<^verbatim>\<open>deadline\<close> field and the same sorted labels have the same
  fingerprint, whatever their other fields are. The fingerprint takes the record alone:
  no clock, no resolved date and no state of the process enters it.
\<close>

theorem fingerprint_of_key_fields:
  assumes "dict_get A ''name'' JNull = dict_get B ''name'' JNull"
    and "normalize_priority (dict_get A ''priority'' JNull) = normalize_priority (dict_get B ''priority'' JNull)"
    and "dict_get A ''status'' JNull = dict_get B ''status'' JNull"
    and "dict_get A ''deadline'' JNull = dict_get B ''deadline'' JNull"
    and "py_sorted (dict_get A ''labels'' (JList [])) = py_sorted (dict_get B ''labels'' (JList []))"
  shows "get_thread_hash A = get_thread_hash B"
  using assms by (simp add: get_thread_hash_def)

theorem fingerprint_of_key_fields_witness:
  "get_thread_hash
     [(''name'', JStr ''Ship v2''), (''priority'', JStr ''2''), (''status'', JStr ''active''),
      (''labels'', JList [JStr ''b'', JStr ''a'']), (''due_date'', JStr ''2026-03-01'')]
   = get_thread_hash
     [(''labels'', JList [JStr ''a'', JStr ''b'']), (''priority'', JStr ''priority-2''),
      (''name'', JStr ''Ship v2''), (''status'', JStr ''active''), (''description'', JStr ''due tomorrow'')]"
proof (rule fingerprint_of_key_fields)
  show "dict_get [(''name'', JStr ''Ship v2''), (''priority'', JStr ''2''), (''status'', JStr ''active''),
      (''labels'', JList [JStr ''b'', JStr ''a'']), (''due_date'', JStr ''2026-03-01'')] ''name'' JNull
    = dict_get [(''labels'', JList [JStr ''a'', JStr ''b'']), (''priority'', JStr ''priority-2''),
      (''name'', JStr ''Ship v2''), (''status'', JStr ''active''), (''description'', JStr ''due tomorrow'')] ''name'' JNull"
    by (simp add: dict_get_def)
  show "normalize_priority (dict_get [(''name'', JStr ''Ship v2''), (''priority'', JStr ''2''), (''status'', JStr ''active''),
      (''labels'', JList [JStr ''b'', JStr ''a'']), (''due_date'', JStr ''2026-03-01'')] ''priority'' JNull)
    = normalize_priority (dict_get [(''labels'', JList [JStr ''a'', JStr ''b'']), (''priority'', JStr ''priority-2''),
      (''name'', JStr ''Ship v2''), (''status'', JStr ''active''), (''description'', JStr ''due tomorrow'')] ''priority'' JNull)"
    by code_simp
  show "dict_get [(''name'', JStr ''Ship v2''), (''priority'', JStr ''2''), (''status'', JStr ''active''),
      (''labels'', JList [JStr ''b'', JStr ''a'']), (''due_date'', JStr ''2026-03-01'')] ''status'' JNull
    = dict_get [(''labels'', JList [JStr ''a'', JStr ''b'']), (''priority'', JStr ''priority-2''),
      (''name'', JStr ''Ship v2''), (''status'', JStr ''active''), (''description'', JStr ''due tomorrow'')] ''status'' JNull"
    by (simp add: dict_get_def)
  show "dict_get [(''name'', JStr ''Ship v2''), (''priority'', JStr ''2''), (''status'', JStr ''active''),
      (''labels'', JList [JStr ''b'', JStr ''a'']), (''due_date'', JStr ''2026-03-01'')] ''deadline'' JNull
    = dict_get [(''labels'', JList [JStr ''a'', JStr ''b'']), (''priority'', JStr ''priority-2''),
      (''name'', JStr ''Ship v2''), (''status'', JStr ''active''), (''description'', JStr ''due tomorrow'')] ''deadline'' JNull"
    by (simp add: dict_get_def)
  show "py_sorted (dict_get [(''name'', JStr ''Ship v2''), (''priority'', JStr ''2''), (''status'', JStr ''active''),
      (''labels'', JList [JStr ''b'', JStr ''a'']), (''due_date'', JStr ''2026-03-01'')] ''labels'' (JList []))
    = py_sorted (dict_get [(''labels'', JList [JStr ''a'', JStr ''b'']), (''priority'', JStr ''priority-2''),
      (''name'', JStr ''Ship v2''), (''status'', JStr ''active''), (''description'', JStr ''due tomorrow'')] ''labels'' (JList []))"
    by code_simp
qed

section \<open>The fallback deadline\<close>

lemma normalize_priority_cases:
  "normalize_priority p = ''P1'' \<or> normalize_priority p = ''P2''
   \<or> normalize_priority p = ''P3'' \<or> normalize_priority p = ''P4''"
  by (simp add: normalize_priority_def Let_def)

text \<open>
  C2, as the code has it. When none of the five lookups of \<^verbatim>\<open>get_deadline\<close> (the
  \<^verbatim>\<open>deadline\<close> field, the \<^verbatim>\<open>due_date\<close> field, the labels, the description, the notes) gives
  a date, the result is the current time plus 3 days for P1, 7 for P2, 14 for P3 and 30
  for P4, which is also the rank of every absent or unrecognized priority. The default
  number of days that the function takes is not used.
\<close>

theorem fallback_deadline_by_priority:
  assumes "deadline_field E meta = Inr None"
    and "due_date_field E meta = Inr None"
    and "extract_deadline_from_labels E (dict_get meta ''labels'' (JList [])) = Inr None"
    and "extract_deadline_from_text E (dict_get meta ''description'' (JStr [])) = Inr None"
    and "extract_deadline_from_text E (dict_get meta ''notes'' (JStr [])) = Inr None"
  shows "get_deadline E meta default_days =
           plus_days (now E)
             (if normalize_priority (dict_get meta ''priority'' JNull) = ''P1'' then 3
              else if normalize_priority (dict_get meta ''priority'' JNull) = ''P2'' then 7
              else if normalize_priority (dict_get meta ''priority'' JNull) = ''P3'' then 14
              else 30)"
proof -
  have "get_deadline E meta default_days = plus_days (now E) (fallback_days meta default_days)"
    using assms by (simp add: get_deadline_def)
  moreover have "fallback_days meta default_days =
             (if normalize_priority (dict_get meta ''priority'' JNull) = ''P1'' then 3
              else if normalize_priority (dict_get meta ''priority'' JNull) = ''P2'' then 7
              else if normalize_priority (dict_get meta ''priority'' JNull) = ''P3'' then 14
              else 30)"
    using normalize_priority_cases [of "dict_get meta ''priority'' JNull"]
    by (auto simp: fallback_days_def priority_days_def)
  ultimately show ?thesis by simp
qed

lemma no_fields_no_date:
  "deadline_field E [(''priority'', p)] = Inr None"
  "due_date_field E [(''priority'', p)] = Inr None"
  "extract_deadline_from_labels E (dict_get [(''priority'', p)] ''labels'' (JList [])) = Inr None"
  "extract_deadline_from_text E (dict_get [(''priority'', p)] ''description'' (JStr [])) = Inr None"
  "extract_deadline_from_text E (dict_get [(''priority'', p)] ''notes'' (JStr [])) = Inr None"
  by (simp_all add: deadline_field_def due_date_field_def extract_deadline_from_labels_def
        extract_deadline_from_text_def dict_get_def)

theorem fallback_deadline_by_priority_witness:
  "deadline_field env_ok [(''priority'', JStr ''p1'')] = Inr None
   \<and> due_date_field env_ok [(''priority'', JStr ''p1'')] = Inr None
   \<and> extract_deadline_from_labels env_ok (dict_get [(''priority'', JStr ''p1'')] ''labels'' (JList [])) = Inr None
   \<and> extract_deadline_from_text env_ok (dict_get [(''priority'', JStr ''p1'')] ''description'' (JStr [])) = Inr None
   \<and> extract_deadline_from_text env_ok (dict_get [(''priority'', JStr ''p1'')] ''notes'' (JStr [])) = Inr None
   \<and> get_deadline env_ok [(''priority'', JStr ''p1'')] 7 = Inr \<lparr>ordinal = 739603, micros = 0\<rparr>"
proof -
  have p: "normalize_priority (dict_get [(''priority'', JStr ''p1'')] ''priority'' JNull) = ''P1''"
    by code_simp
  have "get_deadline env_ok [(''priority'', JStr ''p1'')] 7 = plus_days (now env_ok) 3"
    using fallback_deadline_by_priority [OF no_fields_no_date, of env_ok "JStr ''p1''" 7] p by simp
  moreover have "plus_days (now env_ok) 3 = Inr \<lparr>ordinal = 739603, micros = 0\<rparr>"
    by (simp add: plus_days_def env_ok_def example_env_def MAXORDINAL_def)
  ultimately show ?thesis using no_fields_no_date [of env_ok "JStr ''p1''"] by simp
qed

text \<open>The claim as written fails for rank 4: a record without any field, resolved with
  the default of 7 days, gets the date 30 days ahead, not 7.\<close>

theorem fallback_default_counterexample:
  "deadline_field env_ok [(''priority'', JStr ''someday'')] = Inr None
   \<and> due_date_field env_ok [(''priority'', JStr ''someday'')] = Inr None
   \<and> extract_deadline_from_labels env_ok (dict_get [(''priority'', JStr ''someday'')] ''labels'' (JList [])) = Inr None
   \<and> extract_deadline_from_text env_ok (dict_get [(''priority'', JStr ''someday'')] ''description'' (JStr [])) = Inr None
   \<and> extract_deadline_from_text env_ok (dict_get [(''priority'', JStr ''someday'')] ''notes'' (JStr [])) = Inr None
   \<and> normalize_priority (dict_get [(''priority'', JStr ''someday'')] ''priority'' JNull) = ''P4''
   \<and> DEFAULT_DEADLINE_DAYS = 7
   \<and> get_deadline env_ok [(''priority'', JStr ''someday'')] DEFAULT_DEADLINE_DAYS = Inr \<lparr>ordinal = 739630, micros = 0\<rparr>
   \<and> plus_days (now env_ok) DEFAULT_DEADLINE_DAYS = Inr \<lparr>ordinal = 739607, micros = 0\<rparr>"
proof -
  have p: "normalize_priority (dict_get [(''priority'', JStr ''someday'')] ''priority'' JNull) = ''P4''"
    by code_simp
  have "get_deadline env_ok [(''priority'', JStr ''someday'')] DEFAULT_DEADLINE_DAYS
          = plus_days (now env_ok) (fallback_days [(''priority'', JStr ''someday'')] DEFAULT_DEADLINE_DAYS)"
    using no_fields_no_date [of env_ok "JStr ''someday''"] by (simp add: get_deadline_def)
  moreover have "fallback_days [(''priority'', JStr ''someday'')] DEFAULT_DEADLINE_DAYS = 30"
    using p by (simp add: fallback_days_def priority_days_def)
  moreover have "plus_days (now env_ok) 30 = Inr \<lparr>ordinal = 739630, micros = 0\<rparr>"
    by (simp add: plus_days_def env_ok_def example_env_def MAXORDINAL_def)
  moreover have "plus_days (now env_ok) DEFAULT_DEADLINE_DAYS = Inr \<lparr>ordinal = 739607, micros = 0\<rparr>"
    by (simp add: plus_days_def env_ok_def example_env_def MAXORDINAL_def DEFAULT_DEADLINE_DAYS_def)
  ultimately show ?thesis
    using no_fields_no_date [of env_ok "JStr ''someday''"] p by (simp add: DEFAULT_DEADLINE_DAYS_def)
qed

section \<open>Saving is not atomic\<close>

text \<open>
  C3, as the code has it. \<^verbatim>\<open>save_state\<close> rewrites the state file in place. A save that runs
  to its end leaves exactly the new text, and a crash before the file is opened leaves
  what was there; a crash between opening the file and writing the text leaves an empty
  file.
\<close>

theorem save_state_crash_points:
  "crash_after k (write_text t) f = (if k = 0 then f else if k = 1 then Some [] else Some t)"
proof -
  have "k = 0 \<or> k = 1 \<or> 2 \<le> k" by arith
  then show ?thesis
    by (auto simp: crash_after_def write_text_def)
qed

text \<open>The claim as written fails: a crash in the middle of a save leaves neither the
  previous state nor the new one.\<close>

theorem save_state_atomic_counterexample:
  "crash_after 1 (write_text ''{new state}'') (Some ''{old state}'') = Some []
   \<and> crash_after 1 (write_text ''{new state}'') (Some ''{old state}'') \<noteq> Some ''{old state}''
   \<and> crash_after 1 (write_text ''{new state}'') (Some ''{old state}'') \<noteq> Some ''{new state}''"
  by (simp add: crash_after_def write_text_def)

section \<open>Terminal status\<close>

lemma snd_delete_calendar_event:
  "snd (delete_calendar_event E cs event_id) = cs @ [[JStr ''delete'', event_id]]"
  by (simp add: delete_calendar_event_def Let_def split: prod.split)

lemma map_of_dict_del_same: "map_of (dict_del kvs k) k = None"
  by (simp add: dict_del_def delete_conv')

text \<open>
  C5. A thread with a terminal status whose sync entry holds an event id is classified
  as deleted: its entry is removed from the state whatever the calendar script answers,
  after exactly one delete invocation, or after none when the event id is the sentinel
  \<^verbatim>\<open>created_no_id\<close>.
\<close>

theorem terminal_task_is_deleted_once:
  assumes "map_of (threads s) thread_id = Some (Parsed (JObj meta))"
    and "terminal_status (dict_get meta ''status'' (JStr ''active''))"
    and "map_of (synced_threads s) thread_id = Some (JObj info)"
    and "truthy (dict_get info ''event_id'' JNull)"
  shows "sync_thread_to_calendar E thread_id s =
           Inr (''deleted'',
             s\<lparr>synced_threads := dict_del (synced_threads s) thread_id,
               calls := (if dict_get info ''event_id'' JNull = NO_ID then calls s
                         else calls s @ [[JStr ''delete'', dict_get info ''event_id'' JNull]])\<rparr>)
       \<and> map_of (dict_del (synced_threads s) thread_id) thread_id = None"
proof -
  have "info \<noteq> []"
    using assms(4) by (auto simp: dict_get_def)
  then have t: "truthy (JObj info)" by simp
  have g: "dict_get (synced_threads s) thread_id JNull = JObj info"
    using assms(3) by (simp add: dict_get_def)
  show ?thesis
    using assms(1,2,4) t g
    by (simp add: sync_thread_to_calendar_def sync_closed_def py_get_def
          snd_delete_calendar_event map_of_dict_del_same)
qed

theorem terminal_task_is_deleted_once_witness:
  "map_of (threads \<lparr>synced_threads = [(''t1'', JObj [(''event_id'', JStr ''evt1'')])],
       threads = [(''t1'', Parsed (JObj [(''status'', JStr ''closed'')]))], calls = []\<rparr>) ''t1''
     = Some (Parsed (JObj [(''status'', JStr ''closed'')]))
   \<and> terminal_status (dict_get [(''status'', JStr ''closed'')] ''status'' (JStr ''active''))
   \<and> truthy (dict_get [(''event_id'', JStr ''evt1'')] ''event_id'' JNull)
   \<and> failure (calendar_script env_fail 0 [JStr ''delete'', JStr ''evt1''])
   \<and> sync_thread_to_calendar env_fail ''t1''
       \<lparr>synced_threads = [(''t1'', JObj [(''event_id'', JStr ''evt1'')])],
        threads = [(''t1'', Parsed (JObj [(''status'', JStr ''closed'')]))], calls = []\<rparr>
     = Inr (''deleted'',
         \<lparr>synced_threads = [],
          threads = [(''t1'', Parsed (JObj [(''status'', JStr ''closed'')]))],
          calls = [[JStr ''delete'', JStr ''evt1'']]\<rparr>)"
proof -
  let ?s = "\<lparr>synced_threads = [(''t1'', JObj [(''event_id'', JStr ''evt1'')])],
       threads = [(''t1'', Parsed (JObj [(''status'', JStr ''closed'')]))], calls = []\<rparr>"
  have h1: "map_of (threads ?s) ''t1'' = Some (Parsed (JObj [(''status'', JStr ''closed'')]))"
    by simp
  have h2: "terminal_status (dict_get [(''status'', JStr ''closed'')] ''status'' (JStr ''active''))"
    by (simp add: terminal_status_def dict_get_def)
  have h3: "map_of (synced_threads ?s) ''t1'' = Some (JObj [(''event_id'', JStr ''evt1'')])"
    by simp
  have h4: "truthy (dict_get [(''event_id'', JStr ''evt1'')] ''event_id'' JNull)"
    by (simp add: dict_get_def)
  have f: "failure (calendar_script env_fail 0 [JStr ''delete'', JStr ''evt1''])"
    by (simp add: env_fail_def example_env_def)
  from terminal_task_is_deleted_once [OF h1 h2 h3 h4, of env_fail]
  have "sync_thread_to_calendar env_fail ''t1'' ?s =
     Inr (''deleted'',
       \<lparr>synced_threads = [],
        threads = [(''t1'', Parsed (JObj [(''status'', JStr ''closed'')]))],
        calls = [[JStr ''delete'', JStr ''evt1'']]\<rparr>)"
    by (simp add: dict_get_def dict_del_def NO_ID_def)
  with h1 h2 h4 f show ?thesis by simp
qed

section \<open>The identifier of a created event\<close>

lemma run_calendar_command_Exited:
  "calendar_script E n args = Exited returncode out err
     \<Longrightarrow> run_calendar_command E n args = (returncode = 0, out @ err)"
  by (simp add: run_calendar_command_def)

lemma create_calendar_event_success:
  assumes "event_args E thread_id meta = Inr (title, rest)"
    and "calendar_script E (length cs) ([JStr ''create'', JStr title] @ rest) = Exited 0 out err"
  shows "create_calendar_event E cs thread_id meta =
           then_do (extract_event_id E (out @ err))
             (\<lambda>event_id. Inr (Some event_id, cs @ [[JStr ''create'', JStr title] @ rest]))"
  using assms(1) run_calendar_command_Exited [OF assms(2)]
  by (simp add: create_calendar_event_def)

text \<open>
  C7, as the code has it. After a successful create the gateway takes the combined
  output from its first brace to its end, gives that whole text to \<^verbatim>\<open>json.loads\<close> and
  reads the \<^verbatim>\<open>id\<close> field of the result; an id that is a non-empty string is returned.
  When the output has no brace, when the text from the first brace on is no JSON
  document, or when the document has no \<^verbatim>\<open>id\<close> or an empty one, the create still counts as
  successful and returns the sentinel \<^verbatim>\<open>created_no_id\<close>.
\<close>

theorem create_reads_id_after_first_brace:
  assumes "event_args E thread_id meta = Inr (title, rest)"
    and "calendar_script E (length cs) ([JStr ''create'', JStr title] @ rest) = Exited 0 out err"
  shows "(CHR ''{'' \<notin> set (out @ err)
            \<longrightarrow> create_calendar_event E cs thread_id meta
                  = Inr (Some NO_ID, cs @ [[JStr ''create'', JStr title] @ rest]))
       \<and> (json_loads E (dropWhile (\<lambda>c. c \<noteq> CHR ''{'') (out @ err)) = None
            \<longrightarrow> create_calendar_event E cs thread_id meta
                  = Inr (Some NO_ID, cs @ [[JStr ''create'', JStr title] @ rest]))
       \<and> (\<forall>kvs. json_loads E (dropWhile (\<lambda>c. c \<noteq> CHR ''{'') (out @ err)) = Some (JObj kvs)
                \<and> \<not> truthy (dict_get kvs ''id'' JNull)
            \<longrightarrow> create_calendar_event E cs thread_id meta
                  = Inr (Some NO_ID, cs @ [[JStr ''create'', JStr title] @ rest]))
       \<and> (\<forall>kvs i. CHR ''{'' \<in> set (out @ err)
                \<and> json_loads E (dropWhile (\<lambda>c. c \<noteq> CHR ''{'') (out @ err)) = Some (JObj kvs)
                \<and> dict_get kvs ''id'' JNull = JStr i \<and> i \<noteq> []
            \<longrightarrow> create_calendar_event E cs thread_id meta
                  = Inr (Some (JStr i), cs @ [[JStr ''create'', JStr title] @ rest]))"
proof (cases "json_loads E (dropWhile (\<lambda>c. c \<noteq> CHR ''{'') (out @ err))")
  case None
  then show ?thesis
    by (simp add: create_calendar_event_success [OF assms] extract_event_id_def)
next
  case (Some event_data)
  then show ?thesis
    by (cases event_data)
       (auto simp: create_calendar_event_success [OF assms] extract_event_id_def py_get_def)
qed

lemma get_deadline_env_ok:
  "\<exists>d. get_deadline env_ok [(''priority'', p)] default_days = Inr d"
proof -
  have "get_deadline env_ok [(''priority'', p)] default_days
          = plus_days (now env_ok) (fallback_days [(''priority'', p)] default_days)"
    using no_fields_no_date [of env_ok p] by (simp add: get_deadline_def)
  moreover have "fallback_days [(''priority'', p)] default_days \<in> {3, 7, 14, 30}"
    using normalize_priority_cases [of "dict_get [(''priority'', p)] ''priority'' JNull"]
    by (auto simp: fallback_days_def priority_days_def)
  ultimately show ?thesis
    by (auto simp: plus_days_def env_ok_def example_env_def MAXORDINAL_def)
qed

lemma now_example_env [simp]: "now (example_env script loads) = \<lparr>ordinal = 739600, micros = 0\<rparr>"
  by (simp add: example_env_def)

lemma get_deadline_example_env:
  "\<exists>d. get_deadline (example_env script loads) [(''priority'', p)] default_days = Inr d"
proof -
  have "get_deadline (example_env script loads) [(''priority'', p)] default_days
          = plus_days (now (example_env script loads)) (fallback_days [(''priority'', p)] default_days)"
    using no_fields_no_date [of "example_env script loads" p] by (simp add: get_deadline_def)
  moreover have "fallback_days [(''priority'', p)] default_days \<in> {3, 7, 14, 30}"
    using normalize_priority_cases [of "dict_get [(''priority'', p)] ''priority'' JNull"]
    by (auto simp: fallback_days_def priority_days_def)
  ultimately show ?thesis
    by (auto simp: plus_days_def MAXORDINAL_def)
qed

lemma event_args_example_env:
  "\<exists>title rest. event_args (example_env script loads) thread_id [(''priority'', p)] = Inr (title, rest)"
proof -
  obtain d where d: "get_deadline (example_env script loads) [(''priority'', p)] DEFAULT_DEADLINE_DAYS = Inr d"
    using get_deadline_example_env by blast
  have s: "py_get (dict_get [(''priority'', p)] ''sync'' (JObj [])) k JNull = Inr JNull" for k
    by (simp add: py_get_def dict_get_def)
  show ?thesis
    using d s
    by (simp add: event_args_def build_event_title_def build_event_description_def Let_def)
qed

theorem create_reads_id_after_first_brace_witness:
  "\<exists>title rest.
      event_args env_ok ''t1'' [(''priority'', JStr ''P2'')] = Inr (title, rest)
    \<and> calendar_script env_ok (length ([] :: json list list)) ([JStr ''create'', JStr title] @ rest)
        = Exited 0 id_json []
    \<and> CHR ''{'' \<in> set (id_json @ [])
    \<and> json_loads env_ok (dropWhile (\<lambda>c. c \<noteq> CHR ''{'') (id_json @ [])) = Some (JObj [(''id'', JStr ''evt1'')])
    \<and> create_calendar_event env_ok [] ''t1'' [(''priority'', JStr ''P2'')]
        = Inr (Some (JStr ''evt1''), [[JStr ''create'', JStr title] @ rest])"
proof -
  obtain title rest where a: "event_args env_ok ''t1'' [(''priority'', JStr ''P2'')] = Inr (title, rest)"
    using event_args_example_env unfolding env_ok_def by blast
  have c: "calendar_script env_ok (length ([] :: json list list)) ([JStr ''create'', JStr title] @ rest)
        = Exited 0 id_json []"
    by (simp add: env_ok_def example_env_def)
  have b: "CHR ''{'' \<in> set (id_json @ [])"
    by (simp add: id_json_def)
  have l: "json_loads env_ok (dropWhile (\<lambda>c. c \<noteq> CHR ''{'') (id_json @ [])) = Some (JObj [(''id'', JStr ''evt1'')])"
    by (simp add: env_ok_def example_env_def loads_id_def id_json_def)
  have g: "dict_get [(''id'', JStr ''evt1'')] ''id'' JNull = JStr ''evt1'' \<and> ''evt1'' \<noteq> []"
    by (simp add: dict_get_def)
  from create_reads_id_after_first_brace [OF a c] b l g
  have "create_calendar_event env_ok [] ''t1'' [(''priority'', JStr ''P2'')]
        = Inr (Some (JStr ''evt1''), [] @ [[JStr ''create'', JStr title] @ rest])"
    by blast
  with a c b l show ?thesis by auto
qed

text \<open>The claim as written fails: an output that starts with the JSON object
  \<^verbatim>\<open>{"id": "evt1"}\<close> and goes on with another word gives the sentinel, because
  \<^verbatim>\<open>json.loads\<close> rejects the text as a whole.\<close>

theorem first_object_counterexample:
  "take (length id_json) (id_json @ '' done'') = id_json
   \<and> loads_id id_json = Some (JObj [(''id'', JStr ''evt1'')])
   \<and> extract_event_id env_trailing (id_json @ '' done'') = Inr NO_ID
   \<and> extract_event_id env_ok id_json = Inr (JStr ''evt1'')"
  by (simp add: extract_event_id_def env_trailing_def env_ok_def example_env_def loads_id_def
        id_json_def py_get_def dict_get_def)

section \<open>Failures inside one task\<close>

text \<open>
  C4, as the code has it. A \<^verbatim>\<open>meta.json\<close> that is no valid JSON is isolated: the step for
  that thread returns \<^verbatim>\<open>error\<close> without an exception and without a change to the state, the
  thread files or the calendar, and the loop goes on with the remaining threads.
\<close>

theorem malformed_record_is_isolated:
  assumes "map_of (threads s) thread_id = Some Malformed"
  shows "sync_thread_to_calendar E thread_id s = Inr (''error'', s)
       \<and> sync_loop E (thread_id # rest) stats s = sync_loop E rest (count_result stats ''error'') s"
  using assms by (simp add: sync_thread_to_calendar_def)

theorem malformed_record_is_isolated_witness:
  "map_of (threads \<lparr>synced_threads = [], threads = [(''t1'', Malformed)], calls = []\<rparr>) ''t1'' = Some Malformed
   \<and> sync_thread_to_calendar env_ok ''t1'' \<lparr>synced_threads = [], threads = [(''t1'', Malformed)], calls = []\<rparr>
       = Inr (''error'', \<lparr>synced_threads = [], threads = [(''t1'', Malformed)], calls = []\<rparr>)
   \<and> sync_loop env_ok [''t1''] initial_stats \<lparr>synced_threads = [], threads = [(''t1'', Malformed)], calls = []\<rparr>
       = Inr (count_result initial_stats ''error'',
              \<lparr>synced_threads = [], threads = [(''t1'', Malformed)], calls = []\<rparr>)"
proof -
  have h: "map_of (threads \<lparr>synced_threads = [], threads = [(''t1'', Malformed)], calls = []\<rparr>) ''t1'' = Some Malformed"
    by simp
  from malformed_record_is_isolated [OF h, of env_ok "[]" initial_stats] h
  show ?thesis by simp
qed

text \<open>The claim as written fails: a document that is valid JSON but no object, or a
  \<^verbatim>\<open>labels\<close> field that is \<^verbatim>\<open>null\<close>, raises out of the step and ends the run before the next
  thread is looked at.\<close>

theorem unexpected_type_counterexample:
  "sync_thread_to_calendar env_ok ''t1''
     \<lparr>synced_threads = [], threads = [(''t1'', Parsed (JList [])), (''t2'', Malformed)], calls = []\<rparr>
     = Inl AttributeError
   \<and> run_sync env_ok
       \<lparr>synced_threads = [], threads = [(''t1'', Parsed (JList [])), (''t2'', Malformed)], calls = []\<rparr>
     = Inl AttributeError
   \<and> sync_thread_to_calendar env_ok ''t1''
       \<lparr>synced_threads = [], threads = [(''t1'', Parsed (JObj [(''labels'', JNull)])), (''t2'', Malformed)],
        calls = []\<rparr>
     = Inl TypeError"
proof -
  have a: "sync_thread_to_calendar env_ok ''t1''
     \<lparr>synced_threads = [], threads = [(''t1'', Parsed (JList [])), (''t2'', Malformed)], calls = []\<rparr>
     = Inl AttributeError"
    by (simp add: sync_thread_to_calendar_def)
  have srt: "sort [''t1'', ''t2''] = [''t1'', ''t2'']"
    by code_simp
  have b: "run_sync env_ok
       \<lparr>synced_threads = [], threads = [(''t1'', Parsed (JList [])), (''t2'', Malformed)], calls = []\<rparr>
     = Inl AttributeError"
    using a srt by (simp add: run_sync_def cleanup_orphaned_events_def orphaned_ids_def)
  have c: "sync_thread_to_calendar env_ok ''t1''
       \<lparr>synced_threads = [], threads = [(''t1'', Parsed (JObj [(''labels'', JNull)])), (''t2'', Malformed)],
        calls = []\<rparr>
     = Inl TypeError"
    by (simp add: sync_thread_to_calendar_def terminal_status_def dict_get_def get_thread_hash_def
          py_sorted_def)
  from a b c show ?thesis by simp
qed

end
